theory Spec2Isabelle
  imports Complex_Main "HOL-Library.Log_Nat"
begin

section \<open>Python floats\<close>

text \<open>
  A Python \<open>float\<close> is an IEEE-754 binary64 number. A finite one is modelled by the
  rational number it denotes, and every arithmetic operation of the source is the exact
  operation followed by rounding to the nearest number with a 53-bit significand, ties
  to the even significand (\<open>fl\<close>). The exponent range is not bounded in the model, so
  overflow to infinity, subnormal numbers and NaN are not represented.
\<close>

definition rhe :: "rat \<Rightarrow> int" where
  \<comment> \<open>the nearest integer, a tie going to the even one\<close>
  "rhe x = (let f = \<lfloor>x\<rfloor>; r = x - of_int f in
     if r < 1 / 2 then f else if 1 / 2 < r then f + 1 else if even f then f else f + 1)"

definition binade :: "rat \<Rightarrow> int" where
  \<comment> \<open>for \<open>0 < q\<close>, the exponent \<open>e\<close> with \<open>2 powi e \<le> q < 2 powi (e + 1)\<close>\<close>
  "binade q = (if 1 \<le> q then bitlen \<lfloor>q\<rfloor> - 1 else - bitlen (\<lceil>1 / q\<rceil> - 1))"

definition ulp :: "rat \<Rightarrow> rat" where
  "ulp q = 2 powi (binade \<bar>q\<bar> - 52)"

definition fl :: "rat \<Rightarrow> rat" where
  "fl q = (if q = 0 then 0 else of_int (rhe (q / ulp q)) * ulp q)"

definition is_double :: "rat \<Rightarrow> bool" where
  "is_double q = (fl q = q)"

definition fadd :: "rat \<Rightarrow> rat \<Rightarrow> rat" where
  "fadd a b = fl (a + b)"

definition fsub :: "rat \<Rightarrow> rat \<Rightarrow> rat" where
  "fsub a b = fl (a - b)"

definition fmul :: "rat \<Rightarrow> rat \<Rightarrow> rat" where
  "fmul a b = fl (a * b)"

definition fdiv :: "rat \<Rightarrow> rat \<Rightarrow> rat" where
  "fdiv a b = fl (a / b)"

definition lit :: "rat \<Rightarrow> rat" where
  \<comment> \<open>a decimal literal of the source, read as the nearest float\<close>
  "lit q = fl q"

definition py_round :: "rat \<Rightarrow> nat \<Rightarrow> rat" where
  \<comment> \<open>\<open>round(x, n)\<close> of a float: the decimal with \<open>n\<close> places nearest to the exact value
      of \<open>x\<close> (ties to the even last digit), read back as the nearest float\<close>
  "py_round x n = fl (of_int (rhe (x * 10 ^ n)) / 10 ^ n)"

definition py_int :: "rat \<Rightarrow> int" where
  \<comment> \<open>\<open>int(x)\<close> of a float truncates toward zero\<close>
  "py_int x = (if 0 \<le> x then \<lfloor>x\<rfloor> else \<lceil>x\<rceil>)"

definition dict_get :: "('k \<Rightarrow> 'v option) \<Rightarrow> 'k \<Rightarrow> 'v \<Rightarrow> 'v" where
  \<comment> \<open>\<open>d.get(k, default)\<close>\<close>
  "dict_get d k dflt = (case d k of None \<Rightarrow> dflt | Some v \<Rightarrow> v)"

fun contains :: "string \<Rightarrow> string \<Rightarrow> bool" where
  \<comment> \<open>\<open>contains s p\<close> is Python's \<open>p in s\<close> on strings\<close>
  "contains [] p = (p = [])"
| "contains (c # cs) p = (take (length p) (c # cs) = p \<or> contains cs p)"


section \<open>Time, randomness and the state of the service\<close>

text \<open>
  A \<open>datetime\<close> is a number of microseconds on the local time line; \<open>isoformat()\<close> renders
  it injectively and is left out. The module \<open>random\<close> is a source fixed in advance: its
  \<open>n\<close>-th draw is \<open>random_at rs n\<close> when the call is \<open>random.random()\<close> and
  \<open>randint_at rs n a b\<close> when it is \<open>random.randint(a, b)\<close>. The number of draws taken so
  far is part of the state, next to the dictionary \<open>last_prices\<close> of the service.
\<close>

type_synonym datetime = int

definition timedelta_minutes :: "int \<Rightarrow> int" where
  "timedelta_minutes m = m * 60000000"

record random_source =
  random_at :: "nat \<Rightarrow> rat"
  randint_at :: "nat \<Rightarrow> int \<Rightarrow> int \<Rightarrow> int"


record state =
  last_prices :: "string \<Rightarrow> rat option"
  draws :: nat

definition state_ok :: "state \<Rightarrow> bool" where
  \<comment> \<open>every stored price is a float\<close>
  "state_ok s = (\<forall>symb. case last_prices s symb of None \<Rightarrow> True | Some v \<Rightarrow> is_double v)"

definition init :: "nat \<Rightarrow> state" where
  \<comment> \<open>\<open>PriceService()\<close> in a process whose random module has made \<open>n\<close> draws\<close>
  "init n = \<lparr>last_prices = Map.empty, draws = n\<rparr>"

record quote =
  symbol :: string
  price :: rat
  bid :: rat
  ask :: rat
  volume :: int
  timestamp :: datetime
  source :: string

record bar =
  bar_timestamp :: datetime
  bar_open :: rat
  bar_high :: rat
  bar_low :: rat
  bar_close :: rat
  bar_volume :: int


section \<open>The synthetic quote generator\<close>

definition symbol_mapping :: "string \<Rightarrow> string option" where
  "symbol_mapping = map_of
     [(''EUR/USD'', ''EURUSD=X''), (''GBP/USD'', ''GBPUSD=X''), (''USD/JPY'', ''USDJPY=X''),
      (''AUD/USD'', ''AUDUSD=X''), (''USD/CHF'', ''USDCHF=X''), (''EUR/GBP'', ''EURGBP=X''),
      (''EUR/JPY'', ''EURJPY=X''), (''GBP/JPY'', ''GBPJPY=X'')]"

definition default_prices :: "string \<Rightarrow> rat option" where
  "default_prices = map_of
     [(''EUR/USD'', lit (12 / 10)), (''GBP/USD'', lit (13 / 10)), (''USD/JPY'', lit 110),
      (''AUD/USD'', lit (75 / 100)), (''USD/CHF'', lit (92 / 100)), (''EUR/GBP'', lit (85 / 100)),
      (''EUR/JPY'', lit 132), (''GBP/JPY'', lit 143)]"

definition resolve_base_price :: "string \<Rightarrow> rat option \<Rightarrow> rat" where
  \<comment> \<open>lines 96-97: the explicit base price, else the default of the symbol, else 1.0\<close>
  "resolve_base_price symb base_price =
     (case base_price of None \<Rightarrow> dict_get default_prices symb (lit 1) | Some b \<Rightarrow> b)"

definition pip_size :: "string \<Rightarrow> rat" where
  \<comment> \<open>lines 103-108; \<open>volatility\<close> has the same value in both branches\<close>
  "pip_size symb = (if contains symb ''JPY'' then lit (1 / 100) else lit (1 / 10000))"

definition new_price :: "random_source \<Rightarrow> state \<Rightarrow> string \<Rightarrow> rat option \<Rightarrow> rat" where
  \<comment> \<open>lines 96-119: the random walk step and the clamp\<close>
  "new_price rs s symb base_price =
     (let base = resolve_base_price symb base_price;
          last_price = dict_get (last_prices s) symb base;
          volatility = pip_size symb;
          trend = fmul (fsub base last_price) (lit (1 / 1000));
          random_change = fmul (fmul (fsub (random_at rs (draws s)) (lit (1 / 2))) volatility) 2;
          np = fadd (fadd last_price trend) random_change;
          min_price = fmul base (lit (95 / 100));
          max_price = fmul base (lit (105 / 100))
      in max min_price (min max_price np))"

definition generate_dummy_price ::
  "random_source \<Rightarrow> datetime \<Rightarrow> state \<Rightarrow> string \<Rightarrow> rat option \<Rightarrow> quote \<times> state" where
  "generate_dummy_price rs now s symb base_price =
     (let np = new_price rs s symb base_price;
          spread = fmul (pip_size symb) (of_int (randint_at rs (draws s + 1) 1 3));
          b = fsub np (fdiv spread 2);
          a = fadd np (fdiv spread 2)
      in (\<lparr>symbol = symb, price = py_round np 5, bid = py_round b 5, ask = py_round a 5,
            volume = randint_at rs (draws s + 2) 100 1000, timestamp = now,
            source = ''dummy''\<rparr>,
          s\<lparr>last_prices := (last_prices s)(symb \<mapsto> np), draws := draws s + 3\<rparr>))"


section \<open>The external provider and the facade\<close>

text \<open>
  The provider library is outside the program. What it answers is an input of the model:
  whether the import succeeded, and for each provider symbol the \<open>info\<close> dictionary and the
  last close of the one-day history, each of which may raise instead. A field of \<open>info\<close>
  that is missing or \<open>None\<close> is \<open>None\<close> here; both lead to the same result in the source.
  The built-in \<open>float()\<close> on a command-line token is an input as well: \<open>None\<close> stands for
  the \<open>ValueError\<close> it raises on a token that is not a number.
\<close>

datatype 'a attempt = Raises | Returns 'a

record ticker_info =
  regularMarketPrice :: "rat option"
  info_bid :: "rat option"
  info_ask :: "rat option"
  info_volume :: "int option"

datatype history_frame = Empty_Frame | Rows rat

record environment =
  yfinance_available :: bool
  ticker_info_of :: "string \<Rightarrow> ticker_info attempt"
  ticker_history_of :: "string \<Rightarrow> string \<Rightarrow> string \<Rightarrow> history_frame attempt"
  float_of_string :: "string \<Rightarrow> rat option"

definition truthy :: "rat option \<Rightarrow> bool" where
  "truthy v = (case v of None \<Rightarrow> False | Some x \<Rightarrow> x \<noteq> 0)"

definition py_or :: "rat option \<Rightarrow> rat option \<Rightarrow> rat option" where
  "py_or a b = (if truthy a then a else b)"

definition get_real_price :: "environment \<Rightarrow> datetime \<Rightarrow> string \<Rightarrow> quote option" where
  "get_real_price env now symb =
     (if \<not> yfinance_available env then None
      else case symbol_mapping symb of
        None \<Rightarrow> None
      | Some yahoo_symbol \<Rightarrow>
         (case ticker_info_of env yahoo_symbol of
            Raises \<Rightarrow> None
          | Returns info \<Rightarrow>
             (let current = py_or (regularMarketPrice info) (py_or (info_bid info) (info_ask info));
                  current' = (case current of
                       Some c \<Rightarrow> Returns (Some c)
                     | None \<Rightarrow> (case ticker_history_of env yahoo_symbol ''1d'' ''1m'' of
                           Raises \<Rightarrow> Raises
                         | Returns Empty_Frame \<Rightarrow> Returns None
                         | Returns (Rows last_close) \<Rightarrow> Returns (Some last_close)))
              in case current' of
                   Raises \<Rightarrow> None
                 | Returns None \<Rightarrow> None
                 | Returns (Some current_price) \<Rightarrow>
                     Some \<lparr>symbol = symb, price = current_price,
                       bid = (if truthy (info_bid info) then the (info_bid info) else current_price),
                       ask = (if truthy (info_ask info) then the (info_ask info) else current_price),
                       volume = (case info_volume info of None \<Rightarrow> 0 | Some v \<Rightarrow> v),
                       timestamp = now, source = ''yfinance''\<rparr>)))"

definition get_price ::
  "environment \<Rightarrow> random_source \<Rightarrow> datetime \<Rightarrow> state \<Rightarrow> string \<Rightarrow> bool \<Rightarrow> rat option
     \<Rightarrow> quote \<times> state" where
  "get_price env rs now s symb use_real_data base_price =
     (case (if use_real_data then get_real_price env now symb else None) of
        Some real_data \<Rightarrow> (real_data, s)
      | None \<Rightarrow> generate_dummy_price rs now s symb base_price)"


section \<open>The history synthesizer\<close>

definition period_hours :: "string \<Rightarrow> int option" where
  "period_hours = map_of [(''1d'', 24), (''5d'', 120), (''1mo'', 720)]"

definition interval_minutes :: "string \<Rightarrow> int option" where
  "interval_minutes = map_of [(''1m'', 1), (''5m'', 5), (''15m'', 15), (''1h'', 60)]"

definition data_points :: "string \<Rightarrow> string \<Rightarrow> int" where
  \<comment> \<open>line 195: \<open>int((hours * 60) / minutes)\<close>, a float division truncated\<close>
  "data_points period interval =
     (let hours = dict_get period_hours period 24;
          minutes = dict_get interval_minutes interval 1
      in py_int (fdiv (of_int (hours * 60)) (of_int minutes)))"

definition bar_volatility :: "string \<Rightarrow> rat" where
  \<comment> \<open>line 206\<close>
  "bar_volatility symb = (if \<not> contains symb ''JPY'' then lit (1 / 10000) else lit (1 / 100))"

definition unrounded_bar :: "random_source \<Rightarrow> string \<Rightarrow> rat \<Rightarrow> nat \<Rightarrow> rat \<times> rat \<times> rat \<times> rat" where
  \<comment> \<open>lines 205-210: open, high, low and close of one bar before rounding\<close>
  "unrounded_bar rs symb current_price n =
     (let open_price = current_price;
          volatility = bar_volatility symb;
          high = fadd open_price (fmul (random_at rs n) volatility);
          low = fsub open_price (fmul (random_at rs (n + 1)) volatility);
          close = fadd low (fmul (random_at rs (n + 2)) (fsub high low))
      in (open_price, high, low, close))"

definition make_bar ::
  "random_source \<Rightarrow> datetime \<Rightarrow> int \<Rightarrow> int \<Rightarrow> string \<Rightarrow> nat \<Rightarrow> rat \<Rightarrow> nat \<Rightarrow> bar \<times> rat" where
  \<comment> \<open>lines 202-221: the body of the \<open>for\<close> loop at index \<open>i\<close>; the result is the bar
      appended and the unrounded close, which the next bar opens with\<close>
  "make_bar rs end_time minutes points symb i current_price n =
     (let ts = end_time - timedelta_minutes (minutes * (points - int i - 1));
          (open_price, high, low, close) = unrounded_bar rs symb current_price n
      in (\<lparr>bar_timestamp = ts, bar_open = py_round open_price 5,
            bar_high = py_round high 5, bar_low = py_round low 5,
            bar_close = py_round close 5,
            bar_volume = randint_at rs (n + 3) 100 1000\<rparr>, close))"

fun historical_loop ::
  "random_source \<Rightarrow> datetime \<Rightarrow> int \<Rightarrow> int \<Rightarrow> string \<Rightarrow> nat list \<Rightarrow> rat \<Rightarrow> nat
     \<Rightarrow> bar list \<times> nat" where
  \<comment> \<open>line 201: the \<open>for\<close> loop over the indices of the range; \<open>current_price\<close> and the
      number of draws (four for each bar) are carried from one bar to the next\<close>
  "historical_loop rs end_time minutes points symb [] current_price n = ([], n)"
| "historical_loop rs end_time minutes points symb (i # is) current_price n =
     (let (b, close) = make_bar rs end_time minutes points symb i current_price n;
          (rest, n') = historical_loop rs end_time minutes points symb is close (n + 4)
      in (b # rest, n'))"

definition generate_dummy_historical ::
  "random_source \<Rightarrow> datetime \<Rightarrow> state \<Rightarrow> string \<Rightarrow> string \<Rightarrow> string \<Rightarrow> bar list \<times> state" where
  "generate_dummy_historical rs now s symb period interval =
     (let minutes = dict_get interval_minutes interval 1;
          points = data_points period interval;
          end_time = now;
          current_price = dict_get (last_prices s) symb (lit (12 / 10));
          (historical_data, n) =
             historical_loop rs end_time minutes points symb [0 ..< nat points] current_price (draws s)
      in (historical_data, s\<lparr>draws := n\<rparr>))"

definition get_historical_data ::
  "environment \<Rightarrow> random_source \<Rightarrow> datetime \<Rightarrow> state \<Rightarrow> string \<Rightarrow> string \<Rightarrow> string
     \<Rightarrow> bar list \<times> state" where
  \<comment> \<open>lines 150-182. When the provider returns rows, building the first bar evaluates
      \<open>pd.isna\<close>; the module never binds \<open>pd\<close>, so a \<open>NameError\<close> is raised and caught by
      the handler of line 180, which falls back to the synthesizer as every other branch does.\<close>
  "get_historical_data env rs now s symb period interval =
     (if \<not> yfinance_available env then generate_dummy_historical rs now s symb period interval
      else case symbol_mapping symb of
        None \<Rightarrow> generate_dummy_historical rs now s symb period interval
      | Some yahoo_symbol \<Rightarrow>
         (case ticker_history_of env yahoo_symbol period interval of
            Raises \<Rightarrow> generate_dummy_historical rs now s symb period interval
          | Returns Empty_Frame \<Rightarrow> generate_dummy_historical rs now s symb period interval
          | Returns (Rows last_close) \<Rightarrow> generate_dummy_historical rs now s symb period interval))"


section \<open>The command line\<close>

datatype error = ValueError

datatype printed =
    Usage
  | Error_Symbol_Required
  | Unknown_Command string
  | Quote_Json quote
  | History_Json "bar list"

fun index_of :: "string list \<Rightarrow> string \<Rightarrow> nat" where
  \<comment> \<open>\<open>argv.index(x)\<close>, called only when \<open>x in argv\<close>\<close>
  "index_of [] x = 0"
| "index_of (a # as) x = (if a = x then 0 else Suc (index_of as x))"

definition flag_value :: "string list \<Rightarrow> string \<Rightarrow> string option" where
  \<comment> \<open>the token after the first occurrence of a flag, when there is one\<close>
  "flag_value argv flag =
     (if flag \<in> set argv
      then (let idx = index_of argv flag in
            if idx + 1 < length argv then Some (argv ! (idx + 1)) else None)
      else None)"

definition main :: "environment \<Rightarrow> random_source \<Rightarrow> datetime \<Rightarrow> string list \<Rightarrow> error + printed" where
  "main env rs now argv =
     (if length argv < 2 then Inr Usage
      else let service = init 0; command = argv ! 1 in
        if command = ''price'' then
          (if length argv < 3 then Inr Error_Symbol_Required
           else let symb = argv ! 2; use_real = (''--real'' \<in> set argv) in
             case flag_value argv ''--base-price'' of
               None \<Rightarrow> Inr (Quote_Json (fst (get_price env rs now service symb use_real None)))
             | Some tok \<Rightarrow>
                (case float_of_string env tok of
                   None \<Rightarrow> Inl ValueError
                 | Some base_price \<Rightarrow>
                     Inr (Quote_Json (fst (get_price env rs now service symb use_real (Some base_price))))))
        else if command = ''historical'' then
          (if length argv < 3 then Inr Error_Symbol_Required
           else let symb = argv ! 2;
                    period = (case flag_value argv ''--period'' of None \<Rightarrow> ''1d'' | Some p \<Rightarrow> p);
                    interval = (case flag_value argv ''--interval'' of None \<Rightarrow> ''1m'' | Some i \<Rightarrow> i)
                in Inr (History_Json (fst (get_historical_data env rs now service symb period interval))))
        else Inr (Unknown_Command command))"


section \<open>Properties of a bar\<close>






section \<open>Concrete inputs\<close>

definition fixed_source :: "rat \<Rightarrow> int \<Rightarrow> random_source" where
  \<comment> \<open>a random source whose every float draw is \<open>r\<close> and whose every integer draw is the
      \<open>k\<close>-th value of the requested range, capped at its upper end\<close>
  "fixed_source r k = \<lparr>random_at = (\<lambda>n. r), randint_at = (\<lambda>n a b. min b (a + k))\<rparr>"

definition env_offline :: environment where
  \<comment> \<open>a process without the provider library; \<open>float()\<close> is tabulated for the two numeric
      tokens of the examples, and the examples apply it to no other token than \<open>abc\<close>\<close>
  "env_offline = \<lparr>yfinance_available = False, ticker_info_of = (\<lambda>y. Raises),
     ticker_history_of = (\<lambda>y p i. Raises),
     float_of_string = map_of [(''1.2'', lit (12 / 10)), (''1.015625'', lit (65 / 64))]\<rparr>"

definition env_live :: environment where
  \<comment> \<open>a provider that answers every symbol with the same quote\<close>
  "env_live = \<lparr>yfinance_available = True,
     ticker_info_of = (\<lambda>y. Returns \<lparr>regularMarketPrice = Some (11 / 8), info_bid = Some (5 / 4),
        info_ask = Some (3 / 2), info_volume = Some 12\<rparr>),
     ticker_history_of = (\<lambda>y p i. Returns Empty_Frame),
     float_of_string = map_of [(''1.2'', lit (12 / 10))]\<rparr>"

definition quotient_ok :: "int \<Rightarrow> int \<Rightarrow> bool" where
  "quotient_ok h m = (py_int (fdiv (of_int (h * 60)) (of_int m)) = h * 60 div m)"


section \<open>Rounding is monotone and idempotent\<close>

text \<open>
  The facts about \<open>fl\<close> that the claims rest on: it is monotone, it leaves a float
  unchanged, it moves a number by at most half a unit in the last place, and so
  \<open>round(x, n)\<close> is monotone as well.
\<close>

lemma rhe_bounds: "\<lfloor>x\<rfloor> \<le> rhe x \<and> rhe x \<le> \<lfloor>x\<rfloor> + 1"
  by (simp add: rhe_def Let_def)

lemma rhe_of_int [simp]: "rhe (of_int k) = k"
  by (simp add: rhe_def)

lemma rhe_mono:
  assumes "x \<le> y"
  shows "rhe x \<le> rhe y"
proof (cases "\<lfloor>x\<rfloor> = \<lfloor>y\<rfloor>")
  case True
  then show ?thesis
    using assms by (auto simp: rhe_def Let_def)
next
  case False
  then have "\<lfloor>x\<rfloor> < \<lfloor>y\<rfloor>"
    using floor_mono[OF assms] by simp
  then have "\<lfloor>x\<rfloor> + 1 \<le> \<lfloor>y\<rfloor>" by simp
  then show ?thesis
    using rhe_bounds[of x] rhe_bounds[of y] by linarith
qed



lemma rhe_minus: "rhe (- x) = - rhe x"
proof (cases "x = of_int \<lfloor>x\<rfloor>")
  case True
  then obtain k where "x = of_int k" ..
  then show ?thesis
    by (simp flip: of_int_minus)
next
  case False
  then have lt: "of_int \<lfloor>x\<rfloor> < x" 
    by (metis floor_correct order_le_less of_int_floor_le)
  have up: "x < of_int \<lfloor>x\<rfloor> + 1" by linarith
  have fm: "\<lfloor>- x\<rfloor> = - \<lfloor>x\<rfloor> - 1"
    using lt up by (intro floor_unique) auto
  show ?thesis
    unfolding rhe_def Let_def fm
    by (auto simp: algebra_simps)
qed


lemma binade_bounds:
  assumes "0 < q"
  shows "2 powi binade q \<le> q \<and> q < 2 powi (binade q + 1)"
proof (cases "1 \<le> q")
  case True
  define n where "n = \<lfloor>q\<rfloor>"
  have n1: "1 \<le> n" using True by (simp add: n_def le_floor_iff)
  then have npos: "0 < n" by simp
  have b1: "1 \<le> bitlen n"
    using npos bitlen_eq_zero_iff[of n] bitlen_nonneg[of n] by linarith
  have bb: "2 ^ nat (bitlen n - 1) \<le> n" "n < 2 ^ nat (bitlen n)"
    using bitlen_bounds[OF npos] by simp_all
  have e: "binade q = bitlen n - 1"
    using True by (simp add: binade_def n_def)
  have "(2::rat) powi (bitlen n - 1) = of_int (2 ^ nat (bitlen n - 1))"
    using b1 by (simp add: power_int_def)
  also have "\<dots> \<le> of_int n" using bb(1) by (simp only: of_int_le_iff)
  also have "\<dots> \<le> q" by (simp add: n_def)
  finally have lo: "2 powi binade q \<le> q" by (simp add: e)
  have "n + 1 \<le> 2 ^ nat (bitlen n)" using bb(2) by simp
  then have "(of_int (n + 1) :: rat) \<le> of_int (2 ^ nat (bitlen n))"
    by (simp only: of_int_le_iff)
  moreover have "q < of_int (n + 1)" using floor_correct[of q] by (simp add: n_def)
  moreover have "(2::rat) powi (bitlen n - 1 + 1) = of_int (2 ^ nat (bitlen n))"
    using b1 by (simp add: power_int_def)
  ultimately have "q < 2 powi (binade q + 1)" by (simp add: e)
  with lo show ?thesis by simp
next
  case False
  define p where "p = 1 / q"
  define n where "n = \<lceil>p\<rceil> - 1"
  have p1: "1 < p" using False assms by (simp add: p_def)
  have pq: "q = 1 / p" by (simp add: p_def)
  have n1: "1 \<le> n" using p1 by (simp add: n_def less_ceiling_iff)
  then have npos: "0 < n" by simp
  have b1: "1 \<le> bitlen n"
    using npos bitlen_eq_zero_iff[of n] bitlen_nonneg[of n] by linarith
  have bb: "2 ^ nat (bitlen n - 1) \<le> n" "n < 2 ^ nat (bitlen n)"
    using bitlen_bounds[OF npos] by simp_all
  have e: "binade q = - bitlen n"
    using False by (simp add: binade_def n_def p_def)
  have np: "of_int n < p" "p \<le> of_int n + 1"
    by (simp_all add: n_def) linarith+
  have "n + 1 \<le> 2 ^ nat (bitlen n)" using bb(2) by simp
  then have "(of_int (n + 1) :: rat) \<le> of_int (2 ^ nat (bitlen n))"
    by (simp only: of_int_le_iff)
  then have pu: "p \<le> 2 ^ nat (bitlen n)" using np(2) by simp
  have "(of_int (2 ^ nat (bitlen n - 1)) :: rat) \<le> of_int n"
    using bb(1) by (simp only: of_int_le_iff)
  then have "(2::rat) ^ nat (bitlen n - 1) \<le> of_int n" by simp
  then have pl: "2 ^ nat (bitlen n - 1) < p" using np(1) by linarith
  have A: "(2::rat) powi (- bitlen n) = 1 / 2 ^ nat (bitlen n)"
    using b1 by (simp add: power_int_def field_simps)
  have B: "(2::rat) powi (- bitlen n + 1) = 1 / 2 ^ nat (bitlen n - 1)"
  proof (cases "bitlen n = 1")
    case True then show ?thesis by simp
  next
    case False
    then have "- bitlen n + 1 < 0" using b1 by simp
    moreover have "nat (bitlen n - 1) = nat (- (- bitlen n + 1))" by simp
    ultimately show ?thesis by (simp add: power_int_def field_simps)
  qed
  have "1 / 2 ^ nat (bitlen n) \<le> 1 / p"
    using pu p1 by (simp add: field_simps)
  then have lo: "1 / 2 ^ nat (bitlen n) \<le> q" by (simp only: pq)
  have "1 / p < 1 / 2 ^ nat (bitlen n - 1)"
    using pl p1 by (simp add: field_simps)
  then have hi: "q < 1 / 2 ^ nat (bitlen n - 1)" by (simp only: pq)
  show ?thesis
    unfolding e using lo hi by (simp only: A B)
qed

lemma binade_unique:
  assumes "2 powi e \<le> q" "q < 2 powi (e + 1)"
  shows "binade q = e"
proof -
  have "0 < (2::rat) powi e" by simp
  then have q: "0 < q" using assms(1) by linarith
  note b = binade_bounds[OF q]
  have "(2::rat) powi e < 2 powi (binade q + 1)" using assms(1) b by linarith
  then have 1: "e < binade q + 1"
    by (metis power_int_increasing one_le_numeral not_less)
  have "(2::rat) powi binade q < 2 powi (e + 1)" using assms(2) b by linarith
  then have 2: "binade q < e + 1"
    by (metis power_int_increasing one_le_numeral not_less)
  from 1 2 show ?thesis by simp
qed

lemma binade_mono:
  assumes "0 < a" "a \<le> b"
  shows "binade a \<le> binade b"
proof -
  have "0 < b" using assms by simp
  have "(2::rat) powi binade a < 2 powi (binade b + 1)"
    using binade_bounds[OF assms(1)] binade_bounds[OF \<open>0 < b\<close>] assms(2) by linarith
  then have "binade a < binade b + 1"
    by (metis power_int_increasing one_le_numeral not_less)
  then show ?thesis by simp
qed


lemma ulp_pos [simp]: "0 < ulp q"
  by (simp add: ulp_def)


lemma ulp_minus [simp]: "ulp (- q) = ulp q"
  by (simp add: ulp_def)

lemma ulp_abs [simp]: "ulp \<bar>q\<bar> = ulp q"
  by (simp add: ulp_def)

lemma pow_binade_ulp: "2 powi binade \<bar>q\<bar> = 2 ^ 52 * ulp q"
  by (simp add: ulp_def power_int_diff)

lemma pow_binade_ulp': "2 powi (binade \<bar>q\<bar> + 1) = 2 ^ 53 * ulp q"
  by (simp add: ulp_def power_int_diff power_int_add)

lemma scaled_bounds:
  assumes "0 < q"
  shows "2 ^ 52 \<le> q / ulp q" "q / ulp q < 2 ^ 53"
proof -
  have a: "\<bar>q\<bar> = q" using assms by simp
  have "2 ^ 52 * ulp q \<le> q" "q < 2 ^ 53 * ulp q"
    using binade_bounds[OF assms] pow_binade_ulp[of q] pow_binade_ulp'[of q]
    by (simp_all only: a)
  then show "2 ^ 52 \<le> q / ulp q" "q / ulp q < 2 ^ 53"
    by (simp_all add: field_simps)
qed

lemma significand_bounds:
  assumes "0 < q"
  shows "2 ^ 52 \<le> rhe (q / ulp q)" "rhe (q / ulp q) \<le> 2 ^ 53"
proof -
  have "rhe (of_int (2 ^ 52)) \<le> rhe (q / ulp q)"
    using scaled_bounds(1)[OF assms] by (intro rhe_mono) simp
  then show "2 ^ 52 \<le> rhe (q / ulp q)" by (simp only: rhe_of_int)
  have "rhe (q / ulp q) \<le> rhe (of_int (2 ^ 53))"
    using scaled_bounds(2)[OF assms] by (intro rhe_mono) simp
  then show "rhe (q / ulp q) \<le> 2 ^ 53" by (simp only: rhe_of_int)
qed

lemma fl_zero [simp]: "fl 0 = 0"
  by (simp add: fl_def)

lemma fl_minus: "fl (- q) = - fl q"
  by (simp add: fl_def rhe_minus)

lemma fl_pos_bounds:
  assumes "0 < q"
  shows "2 powi binade q \<le> fl q" "fl q \<le> 2 powi (binade q + 1)"
proof -
  have a: "\<bar>q\<bar> = q" using assms by simp
  have f: "fl q = of_int (rhe (q / ulp q)) * ulp q"
    using assms by (simp add: fl_def)
  have "(of_int (2 ^ 52) :: rat) \<le> of_int (rhe (q / ulp q))"
    using significand_bounds(1)[OF assms] by (simp only: of_int_le_iff)
  then have "2 ^ 52 * ulp q \<le> of_int (rhe (q / ulp q)) * ulp q"
    by (simp add: mult_right_mono)
  then show "2 powi binade q \<le> fl q"
    using pow_binade_ulp[of q] by (simp only: a f)
  have "(of_int (rhe (q / ulp q)) :: rat) \<le> of_int (2 ^ 53)"
    using significand_bounds(2)[OF assms] by (simp only: of_int_le_iff)
  then have "of_int (rhe (q / ulp q)) * ulp q \<le> 2 ^ 53 * ulp q"
    by (simp add: mult_right_mono)
  then show "fl q \<le> 2 powi (binade q + 1)"
    using pow_binade_ulp'[of q] by (simp only: a f)
qed

lemma fl_pos:
  assumes "0 < q"
  shows "0 < fl q"
proof -
  have "0 < (2::rat) powi binade q" by simp
  then show ?thesis using fl_pos_bounds(1)[OF assms] by linarith
qed

lemma fl_mono_pos:
  assumes "0 < a" "a \<le> b"
  shows "fl a \<le> fl b"
proof -
  have b: "0 < b" using assms by simp
  show ?thesis
  proof (cases "binade a = binade b")
    case True
    then have u: "ulp a = ulp b"
      using assms b by (simp add: ulp_def)
    have "rhe (a / ulp b) \<le> rhe (b / ulp b)"
      using assms(2) less_imp_le[OF ulp_pos[of b]] by (intro rhe_mono divide_right_mono)
    then have "(of_int (rhe (a / ulp b)) :: rat) \<le> of_int (rhe (b / ulp b))"
      by (simp only: of_int_le_iff)
    then have "of_int (rhe (a / ulp b)) * ulp b \<le> of_int (rhe (b / ulp b)) * ulp b"
      by (simp add: mult_right_mono)
    then show ?thesis
      using assms(1) b by (simp add: fl_def u)
  next
    case False
    then have "binade a + 1 \<le> binade b"
      using binade_mono[OF assms] by simp
    then have "(2::rat) powi (binade a + 1) \<le> 2 powi binade b"
      by (intro power_int_increasing) simp_all
    then show ?thesis
      using fl_pos_bounds(2)[OF assms(1)] fl_pos_bounds(1)[OF b] by linarith
  qed
qed

lemma fl_mono:
  assumes "a \<le> b"
  shows "fl a \<le> fl b"
proof -
  consider "0 < a" | "a \<le> 0" "0 \<le> b" | "b < 0" using assms by linarith
  then show ?thesis
  proof cases
    case 1
    then show ?thesis using fl_mono_pos assms by simp
  next
    case 2
    have "fl a \<le> 0"
    proof (cases "a = 0")
      case True then show ?thesis by simp
    next
      case False
      then have "0 < - a" using 2 by simp
      then have "0 < fl (- a)" by (rule fl_pos)
      then show ?thesis by (simp add: fl_minus)
    qed
    moreover have "0 \<le> fl b"
    proof (cases "b = 0")
      case True then show ?thesis by simp
    next
      case False
      then have "0 < b" using 2 by simp
      then have "0 < fl b" by (rule fl_pos)
      then show ?thesis by simp
    qed
    ultimately show ?thesis by simp
  next
    case 3
    then have "0 < - b" "- b \<le> - a" using assms by simp_all
    then have "fl (- b) \<le> fl (- a)" by (rule fl_mono_pos)
    then show ?thesis by (simp add: fl_minus)
  qed
qed


lemma fl_significand:
  assumes "2 ^ 52 \<le> k" "k < 2 ^ 53"
  shows "fl (of_int k * 2 powi j) = of_int k * 2 powi j"
proof -
  define v :: rat where "v = of_int k * 2 powi j"
  have k: "(2::rat) ^ 52 \<le> of_int k" "(of_int k :: rat) < 2 ^ 53"
  proof -
    have "(of_int (2 ^ 52) :: rat) \<le> of_int k" using assms(1) by (simp only: of_int_le_iff)
    then show "(2::rat) ^ 52 \<le> of_int k" by simp
    have "(of_int k :: rat) < of_int (2 ^ 53)" using assms(2) by (simp only: of_int_less_iff)
    then show "(of_int k :: rat) < 2 ^ 53" by simp
  qed
  have p: "0 < (2::rat) powi j" by simp
  have lo: "2 powi (j + 52) \<le> v"
    using k(1) p by (simp add: v_def power_int_add mult.commute mult_right_mono)
  have hi: "v < 2 powi (j + 52 + 1)"
    using k(2) p by (simp add: v_def power_int_add mult.commute)
  have e: "binade v = j + 52" using lo hi by (rule binade_unique)
  have vpos: "0 < v" using lo zero_less_power_int[of "2::rat" "j + 52"] by linarith
  then have u: "ulp v = 2 powi j" by (simp add: ulp_def e)
  have "v / 2 powi j = of_int k" by (simp add: v_def)
  then have "v / ulp v = of_int k" by (simp only: u)
  then have "fl v = of_int k * 2 powi j"
    using vpos by (simp add: fl_def u)
  then show ?thesis by (simp add: v_def)
qed

lemma fl_idem: "fl (fl q) = fl q"
proof -
  have pos: "fl (fl q) = fl q" if q: "0 < q" for q
  proof -
    define k where "k = rhe (q / ulp q)"
    define j where "j = binade \<bar>q\<bar> - 52"
    have u: "ulp q = 2 powi j" by (simp add: ulp_def j_def)
    have f: "fl q = of_int k * 2 powi j" using q by (simp add: fl_def k_def u)
    have kb: "2 ^ 52 \<le> k" "k \<le> 2 ^ 53"
      using significand_bounds[OF q] by (simp_all add: k_def)
    show ?thesis
    proof (cases "k = 2 ^ 53")
      case False
      then have "k < 2 ^ 53" using kb(2) by simp
      then show ?thesis
        using fl_significand[OF kb(1), of j] by (simp only: f)
    next
      case True
      have j1: "(2::rat) powi (j + 1) = 2 * 2 powi j"
        by (simp add: power_int_add)
      have "fl q = of_int (2 ^ 52) * 2 powi (j + 1)"
        by (simp add: f True j1)
      moreover have "fl (of_int (2 ^ 52) * 2 powi (j + 1)) = of_int (2 ^ 52) * 2 powi (j + 1)"
        by (rule fl_significand) simp_all
      ultimately show ?thesis by (simp only:)
    qed
  qed
  consider "0 < q" | "q = 0" | "0 < - q" by linarith
  then show ?thesis
  proof cases
    case 1 then show ?thesis by (rule pos)
  next
    case 2 then show ?thesis by simp
  next
    case 3
    then have "fl (fl (- q)) = fl (- q)" by (rule pos)
    then show ?thesis by (simp add: fl_minus)
  qed
qed

lemma is_double_fl [simp]: "is_double (fl q)"
  by (simp add: is_double_def fl_idem)




lemma py_round_mono:
  assumes "x \<le> y"
  shows "py_round x n \<le> py_round y n"
proof -
  have "x * 10 ^ n \<le> y * 10 ^ n" using assms by (simp add: mult_right_mono)
  then have "rhe (x * 10 ^ n) \<le> rhe (y * 10 ^ n)" by (rule rhe_mono)
  then have "(of_int (rhe (x * 10 ^ n)) :: rat) \<le> of_int (rhe (y * 10 ^ n))"
    by (simp only: of_int_le_iff)
  then have "(of_int (rhe (x * 10 ^ n)) :: rat) / 10 ^ n \<le> of_int (rhe (y * 10 ^ n)) / 10 ^ n"
    by (simp add: divide_right_mono)
  then show ?thesis unfolding py_round_def by (rule fl_mono)
qed


section \<open>Evaluating the generator on concrete inputs\<close>

lemma floor_rat_numeral [simp]:
  "\<lfloor>numeral a / numeral b :: rat\<rfloor> = numeral a div numeral b"
  "\<lfloor>- (numeral a / numeral b) :: rat\<rfloor> = - numeral a div numeral b"
  "\<lfloor>1 / numeral b :: rat\<rfloor> = 1 div numeral b"
  "\<lfloor>- (1 / numeral b) :: rat\<rfloor> = - 1 div numeral b"
  by (metis floor_divide_of_int_eq of_int_numeral,
      metis divide_minus_left floor_divide_of_int_eq of_int_neg_numeral of_int_numeral,
      metis floor_divide_of_int_eq of_int_numeral of_int_1,
      metis divide_minus_left floor_divide_of_int_eq of_int_minus of_int_numeral of_int_1)

lemma ceiling_rat_numeral [simp]:
  "\<lceil>numeral a / numeral b :: rat\<rceil> = - (- numeral a div numeral b)"
  "\<lceil>1 / numeral b :: rat\<rceil> = - (- 1 div numeral b)"
  unfolding ceiling_def by (simp_all only: floor_rat_numeral)

lemmas float_eval = fl_def ulp_def binade_def rhe_def Let_def compute_bitlen power_int_minus
  fadd_def fsub_def fmul_def fdiv_def lit_def py_round_def

lemmas walk_eval = new_price_def resolve_base_price_def pip_size_def dict_get_def
  init_def fixed_source_def

lemma price_generate:
  "price (fst (generate_dummy_price rs now s symb base_price)) =
     py_round (new_price rs s symb base_price) 5"
  by (simp add: generate_dummy_price_def Let_def)

lemma state_generate:
  "snd (generate_dummy_price rs now s symb base_price) =
     s\<lparr>last_prices := (last_prices s)(symb \<mapsto> new_price rs s symb base_price),
       draws := draws s + 3\<rparr>"
  by (simp add: generate_dummy_price_def Let_def)


section \<open>Length of the history series\<close>

lemma length_historical_loop:
  "length (fst (historical_loop rs e m p symb is cp n)) = length is"
  by (induction "is" arbitrary: cp n) (simp_all add: Let_def case_prod_beta)

lemma hours_cases: "dict_get period_hours p 24 \<in> {24, 120, 720}"
  by (simp add: period_hours_def dict_get_def)

lemma minutes_cases: "dict_get interval_minutes i 1 \<in> {1, 5, 15, 60}"
  by (simp add: interval_minutes_def dict_get_def)

lemma quotient_table:
  "list_all (\<lambda>h. list_all (quotient_ok h) [1, 5, 15, 60]) [24, 120, 720]"
  by code_simp

lemma quotient_exact:
  assumes "h \<in> {24, 120, 720}" "m \<in> {1, 5, 15, 60::int}"
  shows "py_int (fdiv (of_int (h * 60)) (of_int m)) = h * 60 div m"
proof -
  have "quotient_ok h m"
    using quotient_table assms unfolding list_all_iff by auto
  then show ?thesis by (simp only: quotient_ok_def)
qed

lemma data_points_eq:
  "data_points period interval =
     dict_get period_hours period 24 * 60 div dict_get interval_minutes interval 1"
  unfolding data_points_def Let_def
  by (rule quotient_exact[OF hours_cases minutes_cases])

lemma length_generate_dummy_historical:
  "length (fst (generate_dummy_historical rs now s symb period interval)) =
     nat (data_points period interval)"
  by (simp add: generate_dummy_historical_def Let_def case_prod_beta length_historical_loop)

text \<open>
  C3. The series returned by the history synthesizer has
  \<open>floor (period_hours * 60 / interval_minutes)\<close> bars, where the period table is
  1d = 24, 5d = 120, 1mo = 720 hours and the interval table is 1m = 1, 5m = 5, 15m = 15,
  1h = 60 minutes; a period outside the table counts as 24 hours and an interval outside
  the table as 1 minute, so that a request with both unrecognized has 1440 bars.
\<close>

theorem history_series_length:
  "length (fst (generate_dummy_historical rs now s symb period interval)) =
     nat \<lfloor>rat_of_int (dict_get period_hours period 24 * 60) /
           rat_of_int (dict_get interval_minutes interval 1)\<rfloor>
   \<and> map period_hours [''1d'', ''5d'', ''1mo''] = [Some 24, Some 120, Some 720]
   \<and> map interval_minutes [''1m'', ''5m'', ''15m'', ''1h''] = [Some 1, Some 5, Some 15, Some 60]
   \<and> (period \<notin> {''1d'', ''5d'', ''1mo''} \<longrightarrow> dict_get period_hours period 24 = 24)
   \<and> (interval \<notin> {''1m'', ''5m'', ''15m'', ''1h''} \<longrightarrow> dict_get interval_minutes interval 1 = 1)
   \<and> (period \<notin> {''1d'', ''5d'', ''1mo''} \<and> interval \<notin> {''1m'', ''5m'', ''15m'', ''1h''} \<longrightarrow>
        length (fst (generate_dummy_historical rs now s symb period interval)) = 1440)"
proof -
  have len: "length (fst (generate_dummy_historical rs now s symb period interval)) =
     nat (dict_get period_hours period 24 * 60 div dict_get interval_minutes interval 1)"
    by (simp only: length_generate_dummy_historical data_points_eq)
  have p: "period \<notin> {''1d'', ''5d'', ''1mo''} \<Longrightarrow> dict_get period_hours period 24 = 24"
    by (simp add: period_hours_def dict_get_def)
  have i: "interval \<notin> {''1m'', ''5m'', ''15m'', ''1h''} \<Longrightarrow> dict_get interval_minutes interval 1 = 1"
    by (simp add: interval_minutes_def dict_get_def)
  have t1: "map period_hours [''1d'', ''5d'', ''1mo''] = [Some 24, Some 120, Some 720]"
    by (simp add: period_hours_def)
  have t2: "map interval_minutes [''1m'', ''5m'', ''15m'', ''1h''] = [Some 1, Some 5, Some 15, Some 60]"
    by (simp add: interval_minutes_def)
  have fl: "nat \<lfloor>rat_of_int (dict_get period_hours period 24 * 60) /
           rat_of_int (dict_get interval_minutes interval 1)\<rfloor> =
        nat (dict_get period_hours period 24 * 60 div dict_get interval_minutes interval 1)"
    by (simp only: floor_divide_of_int_eq)
  show ?thesis
    using len p i t1 t2 fl by simp
qed

theorem history_series_length_witness:
  "''2w'' \<notin> {''1d'', ''5d'', ''1mo''} \<and> ''3m'' \<notin> {''1m'', ''5m'', ''15m'', ''1h''}
   \<and> length (fst (generate_dummy_historical (fixed_source (1 / 2) 0) 0 (init 0) ''EUR/USD'' ''2w'' ''3m'')) = 1440"
  using history_series_length [of "fixed_source (1 / 2) 0" 0 "init 0" "''EUR/USD''" "''2w''" "''3m''"]
  by simp

section \<open>Timestamps of the history series\<close>


lemma timestamps_historical_loop:
  "map bar_timestamp (fst (historical_loop rs e m p symb is cp n)) =
     map (\<lambda>i. e - timedelta_minutes (m * (p - int i - 1))) is"
  by (induction "is" arbitrary: cp n) (simp_all add: Let_def case_prod_beta make_bar_def)

lemma data_points_nonneg: "0 \<le> data_points period interval"
  using hours_cases[of period] minutes_cases[of interval]
  by (auto simp: data_points_eq)

lemma minutes_pos: "0 < dict_get interval_minutes i 1"
  using minutes_cases[of i] by auto

lemma timestamps_generate_dummy_historical:
  "map bar_timestamp (fst (generate_dummy_historical rs now s symb period interval)) =
     map (\<lambda>i. now - timedelta_minutes
            (dict_get interval_minutes interval 1 * (data_points period interval - int i - 1)))
         [0 ..< nat (data_points period interval)]"
  by (simp add: generate_dummy_historical_def Let_def case_prod_beta timestamps_historical_loop)

text \<open>
  C6. The series is ordered from the oldest bar to the newest: bar \<open>i\<close> carries the
  time \<open>now - (bar_count - i - 1) * interval_minutes\<close>, consecutive bars are exactly
  \<open>interval_minutes\<close> apart, and the timestamps increase strictly.
\<close>

theorem history_timestamps:
  "let bars = fst (generate_dummy_historical rs now s symb period interval);
       minutes = dict_get interval_minutes interval 1
   in (\<forall>i < length bars. bar_timestamp (bars ! i) =
          now - timedelta_minutes (minutes * (int (length bars) - int i - 1)))
    \<and> (\<forall>i. Suc i < length bars \<longrightarrow>
          bar_timestamp (bars ! Suc i) - bar_timestamp (bars ! i) = timedelta_minutes minutes)
    \<and> sorted_wrt (<) (map bar_timestamp bars)"
proof -
  define bars where "bars = fst (generate_dummy_historical rs now s symb period interval)"
  define minutes where "minutes = dict_get interval_minutes interval 1"
  define points where "points = data_points period interval"
  have len: "length bars = nat points"
    by (simp add: bars_def points_def length_generate_dummy_historical)
  have pts: "int (length bars) = points"
    using data_points_nonneg[of period interval] by (simp add: len points_def)
  have ts: "map bar_timestamp bars =
      map (\<lambda>i. now - timedelta_minutes (minutes * (points - int i - 1))) [0 ..< nat points]"
    by (simp add: bars_def minutes_def points_def timestamps_generate_dummy_historical)
  have nth: "bar_timestamp (bars ! i) = now - timedelta_minutes (minutes * (int (length bars) - int i - 1))"
    if "i < length bars" for i
  proof -
    have "bar_timestamp (bars ! i) = map bar_timestamp bars ! i"
      using that by simp
    also have "\<dots> = now - timedelta_minutes (minutes * (points - int i - 1))"
      using that len by (simp only: ts) simp
    finally show ?thesis by (simp add: pts)
  qed
  have step: "bar_timestamp (bars ! Suc i) - bar_timestamp (bars ! i) = timedelta_minutes minutes"
    if "Suc i < length bars" for i
  proof -
    have "i < length bars" using that by simp
    then show ?thesis
      using nth[of i] nth[OF that] by (simp add: timedelta_minutes_def algebra_simps)
  qed
  have mpos: "0 < minutes"
    by (simp add: minutes_def minutes_pos)
  have incr: "bar_timestamp (bars ! i) < bar_timestamp (bars ! j)"
    if "i < j" "j < length bars" for i j
  proof -
    have "i < length bars" using that by simp
    moreover have "minutes * int i < minutes * int j"
      using mpos that by simp
    ultimately show ?thesis
      using nth[of i] nth[of j] that by (simp add: timedelta_minutes_def algebra_simps)
  qed
  have "sorted_wrt (<) (map bar_timestamp bars)"
    by (simp add: sorted_wrt_iff_nth_less incr)
  with nth step show ?thesis
    unfolding Let_def bars_def[symmetric] minutes_def[symmetric] by blast
qed

theorem history_timestamps_witness:
  "let bars = fst (generate_dummy_historical (fixed_source (1 / 2) 0) 1000000000 (init 0) ''EUR/USD'' ''1d'' ''1h'')
   in length bars = 24
    \<and> bar_timestamp (bars ! 0) = 1000000000 - timedelta_minutes (60 * 23)
    \<and> bar_timestamp (bars ! 23) = 1000000000
    \<and> bar_timestamp (bars ! 1) - bar_timestamp (bars ! 0) = timedelta_minutes 60"
proof -
  have len: "length (fst (generate_dummy_historical (fixed_source (1 / 2) 0) 1000000000 (init 0) ''EUR/USD'' ''1d'' ''1h'')) = 24"
    by (simp add: length_generate_dummy_historical data_points_eq dict_get_def period_hours_def interval_minutes_def)
  have m: "dict_get interval_minutes ''1h'' 1 = 60"
    by (simp add: dict_get_def interval_minutes_def)
  show ?thesis
    using history_timestamps [of "fixed_source (1 / 2) 0" 1000000000 "init 0" "''EUR/USD''" "''1d''" "''1h''"]
    unfolding Let_def len m by (simp add: len timedelta_minutes_def)
qed

section \<open>The facade\<close>

text \<open>
  C7. When \<open>get_price\<close> is called with \<open>use_real_data\<close> true and the external adapter
  returns a quote, that quote is the result, unchanged; the generator is not run: the
  dictionary of last prices and the number of random draws are what they were.
\<close>

theorem external_quote_returned_unchanged:
  "get_real_price env now symb = Some q \<Longrightarrow>
     get_price env rs now s symb True base_price = (q, s)"
  by (simp add: get_price_def)

theorem external_quote_returned_unchanged_witness:
  "get_real_price env_live 7 ''EUR/USD'' =
     Some \<lparr>symbol = ''EUR/USD'', price = 11 / 8, bid = 5 / 4, ask = 3 / 2, volume = 12,
           timestamp = 7, source = ''yfinance''\<rparr>
   \<and> get_price env_live (fixed_source (1 / 2) 0) 7 (init 0) ''EUR/USD'' True None =
     (\<lparr>symbol = ''EUR/USD'', price = 11 / 8, bid = 5 / 4, ask = 3 / 2, volume = 12,
        timestamp = 7, source = ''yfinance''\<rparr>, init 0)"
proof -
  have h: "get_real_price env_live 7 ''EUR/USD'' =
     Some \<lparr>symbol = ''EUR/USD'', price = 11 / 8, bid = 5 / 4, ask = 3 / 2, volume = 12,
           timestamp = 7, source = ''yfinance''\<rparr>"
    by (simp add: get_real_price_def env_live_def symbol_mapping_def py_or_def truthy_def)
  show ?thesis
    using h external_quote_returned_unchanged [OF h, of "fixed_source (1 / 2) 0" "init 0" None]
    by simp
qed

section \<open>Reproducibility of the generator\<close>

lemma timestamp_generate_dummy_price:
  "timestamp (fst (generate_dummy_price rs now s symb base_price)) = now"
  by (simp add: generate_dummy_price_def Let_def)

text \<open>
  C9, as stated: two runs of the generator from the same random source, the same prior
  state, the same symbol and the same base price return quotes equal in all fields. The
  timestamp field is the reading of the clock, so two runs at different times differ.
\<close>

theorem reproducible_counterexample:
  "fst (generate_dummy_price (fixed_source (1 / 2) 0) 0 (init 0) ''EUR/USD'' None) \<noteq>
   fst (generate_dummy_price (fixed_source (1 / 2) 0) 1 (init 0) ''EUR/USD'' None)"
proof
  assume "fst (generate_dummy_price (fixed_source (1 / 2) 0) 0 (init 0) ''EUR/USD'' None) =
          fst (generate_dummy_price (fixed_source (1 / 2) 0) 1 (init 0) ''EUR/USD'' None)"
  then have "timestamp (fst (generate_dummy_price (fixed_source (1 / 2) 0) 0 (init 0) ''EUR/USD'' None)) =
             timestamp (fst (generate_dummy_price (fixed_source (1 / 2) 0) 1 (init 0) ''EUR/USD'' None))"
    by (rule arg_cong)
  then show False
    by (simp add: timestamp_generate_dummy_price)
qed

text \<open>
  C9, amended: two such runs return quotes that agree in every field other than the
  timestamp, which is the clock reading of each run, and leave the same state behind.
\<close>

theorem reproducible_up_to_timestamp:
  "(fst (generate_dummy_price rs t1 s symb base_price))\<lparr>timestamp := t\<rparr> =
   (fst (generate_dummy_price rs t2 s symb base_price))\<lparr>timestamp := t\<rparr>
   \<and> timestamp (fst (generate_dummy_price rs t1 s symb base_price)) = t1
   \<and> timestamp (fst (generate_dummy_price rs t2 s symb base_price)) = t2
   \<and> snd (generate_dummy_price rs t1 s symb base_price) =
     snd (generate_dummy_price rs t2 s symb base_price)"
  by (simp add: generate_dummy_price_def Let_def)

section \<open>Usage errors on the command line\<close>

text \<open>
  C8 at the input \<open>price EUR/USD --base-price abc\<close>: the token after the flag is handed
  to \<open>float()\<close>, which rejects it; the \<open>ValueError\<close> is not caught, so the process ends
  with a traceback and prints no message of its own.
\<close>

theorem base_price_token_crash:
  "float_of_string env ''abc'' = None \<Longrightarrow>
     main env rs now [''priceService.py'', ''price'', ''EUR/USD'', ''--base-price'', ''abc''] =
       Inl ValueError"
  by (simp add: main_def flag_value_def Let_def)

theorem base_price_token_crash_witness:
  "float_of_string env_offline ''abc'' = None \<and>
   main env_offline (fixed_source (1 / 2) 0) 0
     [''priceService.py'', ''price'', ''EUR/USD'', ''--base-price'', ''abc''] = Inl ValueError"
proof -
  have h: "float_of_string env_offline ''abc'' = None"
    by (simp add: env_offline_def)
  show ?thesis
    using h base_price_token_crash [OF h, of "fixed_source (1 / 2) 0" 0] by simp
qed

text \<open>The usage errors that the source does report.\<close>

lemma usage_messages:
  "main env rs now [prog] = Inr Usage"
  "main env rs now [prog, ''price''] = Inr Error_Symbol_Required"
  "main env rs now [prog, ''historical''] = Inr Error_Symbol_Required"
  "cmd \<noteq> ''price'' \<Longrightarrow> cmd \<noteq> ''historical'' \<Longrightarrow> main env rs now (prog # cmd # args) = Inr (Unknown_Command cmd)"
  by (simp_all add: main_def Let_def)

section \<open>The clamp of the generated price\<close>

lemma fl_nonneg: "0 \<le> q \<Longrightarrow> 0 \<le> fl q"
  using fl_mono[of 0 q] by simp

lemma clamp_bounds:
  fixes lo hi x :: rat
  assumes "lo \<le> hi"
  shows "lo \<le> max lo (min hi x)" "max lo (min hi x) \<le> hi"
  using assms by auto

lemma default_price_nonneg: "0 \<le> dict_get default_prices symb (lit 1)"
  by (simp add: default_prices_def dict_get_def lit_def fl_nonneg)

lemma new_price_bounds:
  assumes "0 \<le> resolve_base_price symb base_price"
  shows "fmul (resolve_base_price symb base_price) (lit (95 / 100)) \<le> new_price rs s symb base_price"
    and "new_price rs s symb base_price \<le> fmul (resolve_base_price symb base_price) (lit (105 / 100))"
proof -
  define base where "base = resolve_base_price symb base_price"
  have "lit (95 / 100) \<le> lit (105 / 100)"
    unfolding lit_def by (rule fl_mono) simp
  then have "base * lit (95 / 100) \<le> base * lit (105 / 100)"
    using assms by (simp add: base_def mult_left_mono)
  then have le: "fmul base (lit (95 / 100)) \<le> fmul base (lit (105 / 100))"
    unfolding fmul_def by (rule fl_mono)
  show "fmul (resolve_base_price symb base_price) (lit (95 / 100)) \<le> new_price rs s symb base_price"
    using clamp_bounds(1)[OF le] by (simp add: new_price_def Let_def base_def)
  show "new_price rs s symb base_price \<le> fmul (resolve_base_price symb base_price) (lit (105 / 100))"
    using clamp_bounds(2)[OF le] by (simp add: new_price_def Let_def base_def)
qed

lemma resolve_base_price_nonneg:
  assumes "case base_price of None \<Rightarrow> True | Some b \<Rightarrow> 0 \<le> b"
  shows "0 \<le> resolve_base_price symb base_price"
  using assms default_price_nonneg
  by (cases base_price) (simp_all add: resolve_base_price_def)

text \<open>
  C1, amended. For a base price that is not negative (explicit, or the default of the
  symbol) and any prior state, so after any sequence of earlier calls, the price that the
  generator stores lies within \<open>[base_price * 0.95, base_price * 1.05]\<close>, the two bounds
  being the float products of lines 117 and 118. The price field of the quote is
  that value rounded to 5 decimals, so it lies between the roundings of the two bounds.
\<close>

theorem price_within_rounded_bounds:
  assumes "case base_price of None \<Rightarrow> True | Some b \<Rightarrow> 0 \<le> b"
  shows "let base = resolve_base_price symb base_price;
             lo = fmul base (lit (95 / 100));
             hi = fmul base (lit (105 / 100));
             r = generate_dummy_price rs now s symb base_price
         in \<exists>v. last_prices (snd r) symb = Some v \<and> lo \<le> v \<and> v \<le> hi
              \<and> price (fst r) = py_round v 5
              \<and> py_round lo 5 \<le> price (fst r) \<and> price (fst r) \<le> py_round hi 5"
proof -
  note b = new_price_bounds[OF resolve_base_price_nonneg[OF assms], where rs = rs and s = s]
  show ?thesis
    unfolding Let_def
    using b py_round_mono[OF b(1), where n = 5] py_round_mono[OF b(2), where n = 5]
    by (intro exI[of _ "new_price rs s symb base_price"])
       (simp add: state_generate price_generate)
qed

theorem price_within_rounded_bounds_witness:
  "(case Some (65 / 64 :: rat) of None \<Rightarrow> True | Some b \<Rightarrow> 0 \<le> b) \<and>
   (let base = resolve_base_price ''EUR/USD'' (Some (65 / 64));
        lo = fmul base (lit (95 / 100));
        hi = fmul base (lit (105 / 100));
        r = generate_dummy_price (fixed_source (1 / 2) 0) 0 (init 0) ''EUR/USD'' (Some (65 / 64))
    in \<exists>v. last_prices (snd r) ''EUR/USD'' = Some v \<and> lo \<le> v \<and> v \<le> hi
         \<and> price (fst r) = py_round v 5
         \<and> py_round lo 5 \<le> price (fst r) \<and> price (fst r) \<le> py_round hi 5)"
proof (intro conjI)
  show h: "case Some (65 / 64 :: rat) of None \<Rightarrow> True | Some b \<Rightarrow> 0 \<le> b" by simp
  show "let base = resolve_base_price ''EUR/USD'' (Some (65 / 64));
        lo = fmul base (lit (95 / 100));
        hi = fmul base (lit (105 / 100));
        r = generate_dummy_price (fixed_source (1 / 2) 0) 0 (init 0) ''EUR/USD'' (Some (65 / 64))
    in \<exists>v. last_prices (snd r) ''EUR/USD'' = Some v \<and> lo \<le> v \<and> v \<le> hi
         \<and> price (fst r) = py_round v 5
         \<and> py_round lo 5 \<le> price (fst r) \<and> price (fst r) \<le> py_round hi 5"
    by (rule price_within_rounded_bounds[OF h])
qed


text \<open>
  Two runs for the counterexample: a single call with base price \<open>-1.0\<close>, and a call with
  base price \<open>0.5\<close> followed by a call with base price \<open>1.000001\<close> on the same symbol.
\<close>

lemma negative_base_walk:
  "new_price (fixed_source (1 / 2) 0) (init 0) ''EUR/USD'' (Some (- 1)) =
     - (4278419646001971 / 4503599627370496)"
  by (simp add: walk_eval float_eval split del: if_split)

lemma negative_base_price:
  "price (fst (generate_dummy_price (fixed_source (1 / 2) 0) 0 (init 0) ''EUR/USD'' (Some (- 1)))) =
     - (4278419646001971 / 4503599627370496)"
  by (simp only: price_generate negative_base_walk) (simp add: float_eval split del: if_split)

lemma negative_base_upper:
  "fmul (- 1) (lit (105 / 100)) = - (4728779608739021 / 4503599627370496)"
  by (simp add: float_eval split del: if_split)

lemma first_walk:
  "new_price (fixed_source (1 / 2) 0) (init 0) ''EUR/USD'' (Some (1 / 2)) = 1 / 2"
  by (simp add: walk_eval float_eval split del: if_split)

lemma base_1000001: "lit (1000001 / 1000000) = 4503604130970123 / 4503599627370496"
  by (simp add: float_eval split del: if_split)

lemma second_walk:
  "new_price (fixed_source (1 / 2) 0)
     \<lparr>last_prices = [''EUR/USD'' \<mapsto> 1 / 2], draws = 3\<rparr> ''EUR/USD''
     (Some (4503604130970123 / 4503599627370496)) = 8556847848843233 / 9007199254740992"
  by (simp add: walk_eval float_eval split del: if_split)

lemma second_price:
  "py_round (8556847848843233 / 9007199254740992) 5 = 4278419646001971 / 4503599627370496"
  by (simp add: float_eval split del: if_split)

lemma second_lower:
  "fmul (4503604130970123 / 4503599627370496) (lit (95 / 100)) = 8556847848843233 / 9007199254740992"
  by (simp add: float_eval split del: if_split)

text \<open>
  C1, as stated, fails. With base price \<open>-1.0\<close> the price is \<open>-0.95\<close>, above
  \<open>1.05 * base_price = -1.05\<close>. With base price \<open>1.000001\<close> after a call that left the
  last price at \<open>0.5\<close>, the walk is clamped to \<open>0.95000095\<close> and the quote reports
  \<open>0.95\<close>, below \<open>0.95 * base_price\<close>.
\<close>

theorem price_bounds_counterexample:
  "price (fst (generate_dummy_price (fixed_source (1 / 2) 0) 0 (init 0) ''EUR/USD'' (Some (- 1))))
     > fmul (- 1) (lit (105 / 100))
   \<and> (let s1 = snd (generate_dummy_price (fixed_source (1 / 2) 0) 0 (init 0) ''EUR/USD'' (Some (1 / 2)));
           b2 = lit (1000001 / 1000000);
           q = fst (generate_dummy_price (fixed_source (1 / 2) 0) 1 s1 ''EUR/USD'' (Some b2))
       in price q < fmul b2 (lit (95 / 100)) \<and> price q < 95 / 100 * b2)"
proof -
  have s1: "snd (generate_dummy_price (fixed_source (1 / 2) 0) 0 (init 0) ''EUR/USD'' (Some (1 / 2))) =
      \<lparr>last_prices = [''EUR/USD'' \<mapsto> 1 / 2], draws = 3\<rparr>"
    by (simp only: state_generate first_walk) (simp add: init_def)
  have p2: "price (fst (generate_dummy_price (fixed_source (1 / 2) 0) 1
       \<lparr>last_prices = [''EUR/USD'' \<mapsto> 1 / 2], draws = 3\<rparr> ''EUR/USD''
       (Some (4503604130970123 / 4503599627370496)))) = 4278419646001971 / 4503599627370496"
    by (simp only: price_generate second_walk second_price)
  show ?thesis
    unfolding Let_def s1 base_1000001 p2 second_lower negative_base_price negative_base_upper
    by simp
qed

section \<open>Order of low, open and high in a bar\<close>



















section \<open>Stored price and reported price\<close>









section \<open>Bid and ask around the price\<close>



lemma is_double_max: "is_double a \<Longrightarrow> is_double b \<Longrightarrow> is_double (max a b)"
  by (simp add: max_def)

lemma is_double_min: "is_double a \<Longrightarrow> is_double b \<Longrightarrow> is_double (min a b)"
  by (simp add: min_def)

lemma is_double_new_price: "is_double (new_price rs s symb base_price)"
  unfolding new_price_def Let_def
  by (intro is_double_max is_double_min) (simp_all add: fmul_def fadd_def)

lemma state_ok_generate:
  assumes "state_ok s"
  shows "state_ok (snd (generate_dummy_price rs now s symb base_price))"
  using assms is_double_new_price[of rs s symb base_price]
  by (simp add: state_ok_def state_generate)












section \<open>The close of a bar lies between its low and its high\<close>













end
